theory Spec2Isabelle
  imports Main "HOL-Library.Sublist"
begin

section \<open>The farcaster digest: data model\<close>

text \<open>
  The program (\<^verbatim>\<open>src/index.js\<close>) is JavaScript. Every property the code reads from
  a provider object may be absent (\<^verbatim>\<open>undefined\<close>), so every such field is an
  \<open>option\<close>; optional chaining \<^verbatim>\<open>a?.b\<close> is \<open>Option.bind\<close>. A property that is
  present has the type the provider gives it: a count is a number, a name a string, a
  list of reactions an array. Counts and instants are \<open>int\<close>: the code only adds and
  compares them, far below the range where a double stops being exact. Console output
  and the HTML of the page are not modelled.
\<close>

subsection \<open>Provider objects\<close>

text \<open>A reaction entry of \<^verbatim>\<open>cast.reactions.likes\<close>; the code reads only the array length.\<close>

datatype reaction = Reaction int string

record author_obj =
  author_username :: "string option"
  author_display_name :: "string option"
  author_fname :: "string option"
  author_fid :: "int option"

record reactions_obj =
  reactions_likes :: "reaction list option"
  reactions_recasts :: "reaction list option"

text \<open>
  \<^verbatim>\<open>cast.replies\<close> seen through the two properties the code reads: \<^verbatim>\<open>count\<close>
  (the current response shape) and \<^verbatim>\<open>length\<close> (an array, in the older shape).
\<close>

record replies_obj =
  replies_count :: "int option"
  replies_length :: "int option"

text \<open>The value of \<^verbatim>\<open>cast.timestamp\<close> when present: null, a number or a string.\<close>

datatype ts_val = TsNull | TsNum int | TsStr string

record cast_obj =
  cast_text :: "string option"
  cast_author :: "author_obj option"
  cast_reactions :: "reactions_obj option"
  cast_replies :: "replies_obj option"
  cast_likes :: "reaction list option"
  cast_recasts :: "reaction list option"
  cast_timestamp :: "ts_val option"
  cast_hash :: "string option"

text \<open>The object literal built by the \<^verbatim>\<open>.map\<close> of \<^verbatim>\<open>fetchChannelCasts\<close>.\<close>

record digest_cast =
  text_body :: "string option"
  author :: string
  authorFid :: "int option"
  likes :: int
  replies :: int
  recasts :: int
  timestamp :: "ts_val option"
  hash :: "string option"
  score :: int

subsection \<open>JavaScript operators on these values\<close>

text \<open>\<^verbatim>\<open>a || b\<close> on numbers that may be undefined: 0 and undefined are falsy.\<close>

definition num_or :: "int option \<Rightarrow> int option \<Rightarrow> int option" where
  "num_or a b = (case a of None \<Rightarrow> b | Some n \<Rightarrow> if n \<noteq> 0 then Some n else b)"

text \<open>\<^verbatim>\<open>a || 0\<close>.\<close>

definition num_or_0 :: "int option \<Rightarrow> int" where
  "num_or_0 a = (case a of None \<Rightarrow> 0 | Some n \<Rightarrow> if n \<noteq> 0 then n else 0)"

text \<open>\<^verbatim>\<open>a || b\<close> with \<open>a\<close> a string that may be undefined and \<open>b\<close> a string: the empty
  string and undefined are falsy.\<close>

definition str_or :: "string option \<Rightarrow> string \<Rightarrow> string" where
  "str_or a b = (case a of None \<Rightarrow> b | Some s \<Rightarrow> if s \<noteq> [] then s else b)"

text \<open>\<^verbatim>\<open>xs?.length\<close> of an array that may be undefined.\<close>

definition length_of :: "'a list option \<Rightarrow> int option" where
  "length_of xs = map_option (\<lambda>l. int (length l)) xs"

text \<open>Decimal digits of a number, as a template literal prints an integer of at most
  21 digits, which every author id is.\<close>

definition digit_char :: "nat \<Rightarrow> char" where
  "digit_char d = char_of (48 + d)"

fun string_of_nat :: "nat \<Rightarrow> string" where
  "string_of_nat n =
     (if n < 10 then [digit_char n] else string_of_nat (n div 10) @ [digit_char (n mod 10)])"

definition string_of_int :: "int \<Rightarrow> string" where
  "string_of_int i = (if i < 0 then CHR ''-'' # string_of_nat (nat (- i)) else string_of_nat (nat i))"

text \<open>\<^verbatim>\<open>${x}\<close> for a number that may be undefined.\<close>

definition template_num :: "int option \<Rightarrow> string" where
  "template_num x = (case x of None \<Rightarrow> ''undefined'' | Some n \<Rightarrow> string_of_int n)"

subsection \<open>Author name and score\<close>

definition getAuthorName :: "cast_obj \<Rightarrow> string" where
  "getAuthorName cast =
     str_or (Option.bind (cast_author cast) author_username)
       (str_or (Option.bind (cast_author cast) author_display_name)
         (str_or (Option.bind (cast_author cast) author_fname)
           (str_or (Some (''FID-'' @ template_num (Option.bind (cast_author cast) author_fid)))
             ''Unknown'')))"

definition calculateScore :: "cast_obj \<Rightarrow> int" where
  "calculateScore cast =
     (let likes = num_or_0 (length_of (Option.bind (cast_reactions cast) reactions_likes));
          replies = num_or_0 (Option.bind (cast_replies cast) replies_count);
          recasts = num_or_0 (length_of (Option.bind (cast_reactions cast) reactions_recasts))
      in likes + (replies * 2) + (recasts * 3))"

text \<open>
  The spec's scorer (section 4.1), following its words: the three counts, each a
  number or missing, a missing one read as 0.
\<close>

definition spec_count :: "int option \<Rightarrow> int" where
  "spec_count c = (case c of None \<Rightarrow> 0 | Some n \<Rightarrow> n)"

definition spec_score :: "int option \<Rightarrow> int option \<Rightarrow> int option \<Rightarrow> int" where
  "spec_score likeCount replyCount recastCount =
     spec_count likeCount + 2 * spec_count replyCount + 3 * spec_count recastCount"

text \<open>The counts of a cast the scorer is given: the reaction arrays' sizes and the
  reply count.\<close>

definition likes_count :: "cast_obj \<Rightarrow> int option" where
  "likes_count cast =
     (case cast_reactions cast of None \<Rightarrow> None
      | Some r \<Rightarrow> (case reactions_likes r of None \<Rightarrow> None | Some l \<Rightarrow> Some (int (length l))))"

definition recasts_count :: "cast_obj \<Rightarrow> int option" where
  "recasts_count cast =
     (case cast_reactions cast of None \<Rightarrow> None
      | Some r \<Rightarrow> (case reactions_recasts r of None \<Rightarrow> None | Some l \<Rightarrow> Some (int (length l))))"

definition reply_count :: "cast_obj \<Rightarrow> int option" where
  "reply_count cast =
     (case cast_replies cast of None \<Rightarrow> None | Some r \<Rightarrow> replies_count r)"

subsection \<open>Dates\<close>

text \<open>
  A \<^verbatim>\<open>Date\<close> is its time value in milliseconds, \<open>None\<close> for an invalid date (NaN).
  \<^verbatim>\<open>new Date(v)\<close>: undefined gives an invalid date, null the epoch, a number is
  clipped to the range of time values, a string goes through the language's date parser,
  which is a parameter here.
\<close>

definition time_clip :: "int \<Rightarrow> int option" where
  "time_clip t = (if \<bar>t\<bar> \<le> 8640000000000000 then Some t else None)"

fun new_Date :: "(string \<Rightarrow> int option) \<Rightarrow> ts_val option \<Rightarrow> int option" where
  "new_Date parse None = None"
| "new_Date parse (Some TsNull) = Some 0"
| "new_Date parse (Some (TsNum n)) = time_clip n"
| "new_Date parse (Some (TsStr s)) = parse s"

text \<open>\<^verbatim>\<open>a >= b\<close> on two dates: false as soon as one of them is invalid.\<close>

definition date_ge :: "int option \<Rightarrow> int option \<Rightarrow> bool" where
  "date_ge a b =
     (case a of None \<Rightarrow> False | Some x \<Rightarrow> (case b of None \<Rightarrow> False | Some y \<Rightarrow> y \<le> x))"

subsection \<open>Filtering, scoring and ranking\<close>

text \<open>The callback of \<^verbatim>\<open>.filter\<close> (lines 184-187).\<close>

definition in_window :: "(string \<Rightarrow> int option) \<Rightarrow> int option \<Rightarrow> cast_obj \<Rightarrow> bool" where
  "in_window parse oneDayAgo cast =
     (let castDate = new_Date parse (cast_timestamp cast) in date_ge castDate oneDayAgo)"

text \<open>The callback of \<^verbatim>\<open>.map\<close> (lines 188-198).\<close>

definition digest_cast_of :: "cast_obj \<Rightarrow> digest_cast" where
  "digest_cast_of cast =
     \<lparr>text_body = cast_text cast,
      author = getAuthorName cast,
      authorFid = Option.bind (cast_author cast) author_fid,
      likes = num_or_0 (num_or (length_of (Option.bind (cast_reactions cast) reactions_likes))
                (length_of (cast_likes cast))),
      replies = num_or_0 (num_or (Option.bind (cast_replies cast) replies_count)
                  (Option.bind (cast_replies cast) replies_length)),
      recasts = num_or_0 (num_or (length_of (Option.bind (cast_reactions cast) reactions_recasts))
                  (length_of (cast_recasts cast))),
      timestamp = cast_timestamp cast,
      hash = cast_hash cast,
      score = calculateScore cast\<rparr>"

text \<open>
  \<^verbatim>\<open>Array.prototype.sort\<close> with a comparator: the language requires a stable sort, and
  for a comparator that is a total preorder every stable sort returns the same array.
  It is modelled by insertion from the right, which places an element before the first
  one it does not have to follow.
\<close>

fun insert_cmp :: "('a \<Rightarrow> 'a \<Rightarrow> int) \<Rightarrow> 'a \<Rightarrow> 'a list \<Rightarrow> 'a list" where
  "insert_cmp cmp x [] = [x]"
| "insert_cmp cmp x (y # ys) =
     (if cmp x y \<le> 0 then x # y # ys else y # insert_cmp cmp x ys)"

definition js_sort :: "('a \<Rightarrow> 'a \<Rightarrow> int) \<Rightarrow> 'a list \<Rightarrow> 'a list" where
  "js_sort cmp xs = foldr (insert_cmp cmp) xs []"

text \<open>
  Lines 183-200 on arrays of objects: filter, map, sort by descending score, first five.
\<close>

definition rank_casts :: "(string \<Rightarrow> int option) \<Rightarrow> int option \<Rightarrow> cast_obj list \<Rightarrow> digest_cast list" where
  "rank_casts parse oneDayAgo cs =
     take 5 (js_sort (\<lambda>a b. score b - score a)
       (map digest_cast_of (filter (in_window parse oneDayAgo) cs)))"

text \<open>
  An element of a provider array may be null (\<open>None\<close>); reading \<^verbatim>\<open>cast.timestamp\<close>
  of it in the filter callback throws a TypeError, whose message is the \<open>Inl\<close>.
\<close>

definition recentCasts ::
  "(string \<Rightarrow> int option) \<Rightarrow> int option \<Rightarrow> cast_obj option list \<Rightarrow> string + digest_cast list" where
  "recentCasts parse oneDayAgo allCasts =
     (case those allCasts of
        None \<Rightarrow> Inl ''Cannot read properties of null (reading 'timestamp')''
      | Some cs \<Rightarrow> Inr (rank_casts parse oneDayAgo cs))"

subsection \<open>The provider, the clock and the program state\<close>

datatype user_ident = Fid int | Username string

record lookup_response =
  lookup_result_user_fid :: "int option"
  lookup_user_fid :: "int option"

record casts_response =
  response_result_casts :: "cast_obj option list option"
  response_casts :: "cast_obj option list option"
  response_data_casts :: "cast_obj option list option"

text \<open>
  The outside world has an abstract state \<open>'w\<close>. A provider call takes the world to a
  new one and either throws (\<open>Inl\<close> of the error's message) or returns a response,
  which may be null (\<open>None\<close>). The SDK client may have either fetch method, or none.
  \<^verbatim>\<open>parseInt\<close> and the date parser are the language's, taken as parameters.
\<close>

type_synonym 'w fetch_method = "int \<Rightarrow> nat \<Rightarrow> 'w \<Rightarrow> (string + casts_response option) \<times> 'w"

record 'w env =
  lookupUserByUsername :: "string \<Rightarrow> 'w \<Rightarrow> (string + lookup_response option) \<times> 'w"
  fetchCastsForUser :: "'w fetch_method option"
  fetchUserCasts :: "'w fetch_method option"
  setTimeout :: "nat \<Rightarrow> 'w \<Rightarrow> 'w"
  Date_now :: "'w \<Rightarrow> int"
  parseInt :: "string \<Rightarrow> int option"
  Date_parse :: "string \<Rightarrow> int option"

text \<open>What the program does to the outside, in order.\<close>

datatype event = LookupCall string | FetchCall int nat | Delay nat

record entry =
  channel :: string
  casts :: "digest_cast list"
  error :: "string option"

text \<open>The program state: the world, the events so far, and the global \<^verbatim>\<open>cache\<close>
  object (lines 23-27).\<close>

record 'w state =
  world :: 'w
  trace :: "event list"
  cache_data :: "entry list option"
  cache_timestamp :: "int option"

definition CACHE_DURATION :: int where
  "CACHE_DURATION = 30 * 60 * 1000"

definition CHANNEL_USERS :: "(string \<times> user_ident list) list" where
  "CHANNEL_USERS =
     [(''/farcaster'', [Fid 1325, Fid 15983, Fid 99]),
      (''/fc-devs'', [Fid 3621, Fid 8152]),
      (''/higher'', [Fid 3]),
      (''/ai'', [Fid 221255])]"

text \<open>\<^verbatim>\<open>await new Promise(resolve => setTimeout(resolve, ms))\<close>.\<close>

definition sleep :: "'w env \<Rightarrow> nat \<Rightarrow> 'w state \<Rightarrow> 'w state" where
  "sleep env ms st = st\<lparr>world := setTimeout env ms (world st), trace := trace st @ [Delay ms]\<rparr>"

subsection \<open>One author (the body of the loop, lines 127-179)\<close>

text \<open>
  Lines 132-149: the numeric id of an author reference; \<open>None\<close> where the code
  \<^verbatim>\<open>continue\<close>s. A null response makes \<^verbatim>\<open>userResponse.result\<close> throw inside the
  \<^verbatim>\<open>try\<close>, which the \<^verbatim>\<open>catch\<close> of line 145 handles like a provider error.
\<close>

fun resolve_fid :: "'w env \<Rightarrow> user_ident \<Rightarrow> 'w state \<Rightarrow> int option \<times> 'w state" where
  "resolve_fid env (Fid n) st = (Some n, st)"
| "resolve_fid env (Username s) st =
     (case parseInt env s of
        Some n \<Rightarrow> (Some n, st)
      | None \<Rightarrow>
          (case lookupUserByUsername env s (world st) of (r, w) \<Rightarrow>
            (let st1 = st\<lparr>world := w, trace := trace st @ [LookupCall s]\<rparr> in
             case r of
               Inl msg \<Rightarrow> (None, st1)
             | Inr None \<Rightarrow> (None, st1)
             | Inr (Some userResponse) \<Rightarrow>
                 (case num_or (lookup_result_user_fid userResponse) (lookup_user_fid userResponse) of
                    None \<Rightarrow> (None, st1)
                  | Some fid \<Rightarrow>
                      if fid = 0 then (None, st1) else (Some fid, sleep env 2000 st1)))))"

text \<open>Lines 155-163: the method the client has.\<close>

definition fetch_method_of :: "'w env \<Rightarrow> 'w fetch_method option" where
  "fetch_method_of env =
     (case fetchCastsForUser env of Some m \<Rightarrow> Some m | None \<Rightarrow> fetchUserCasts env)"

text \<open>Line 170: arrays are truthy, also the empty one.\<close>

definition response_casts_of :: "casts_response \<Rightarrow> cast_obj option list" where
  "response_casts_of response =
     (case response_result_casts response of
        Some cs \<Rightarrow> cs
      | None \<Rightarrow>
          (case response_casts response of
             Some cs \<Rightarrow> cs
           | None \<Rightarrow> (case response_data_casts response of Some cs \<Rightarrow> cs | None \<Rightarrow> [])))"

text \<open>
  Lines 153-175: the casts this author adds to \<^verbatim>\<open>allCasts\<close>. A thrown error is caught
  at line 164, the TypeError of a null response at line 176; both go on to the next
  author at once.
\<close>

definition fetch_casts :: "'w env \<Rightarrow> int \<Rightarrow> 'w state \<Rightarrow> cast_obj option list \<times> 'w state" where
  "fetch_casts env fid st =
     (case fetch_method_of env of
        None \<Rightarrow> ([], st)
      | Some m \<Rightarrow>
          (case m fid 25 (world st) of (r, w) \<Rightarrow>
            (let st1 = st\<lparr>world := w, trace := trace st @ [FetchCall fid 25]\<rparr> in
             case r of
               Inl msg \<Rightarrow> ([], st1)
             | Inr None \<Rightarrow> ([], st1)
             | Inr (Some response) \<Rightarrow> (response_casts_of response, sleep env 2000 st1))))"

definition process_user :: "'w env \<Rightarrow> user_ident \<Rightarrow> 'w state \<Rightarrow> cast_obj option list \<times> 'w state" where
  "process_user env userIdentifier st =
     (case resolve_fid env userIdentifier st of
        (None, st1) \<Rightarrow> ([], st1)
      | (Some fid, st1) \<Rightarrow> fetch_casts env fid st1)"

text \<open>The loop of line 126: \<^verbatim>\<open>allCasts\<close> is the authors' casts, appended in roster order.\<close>

fun process_users :: "'w env \<Rightarrow> user_ident list \<Rightarrow> 'w state \<Rightarrow> cast_obj option list \<times> 'w state" where
  "process_users env [] st = ([], st)"
| "process_users env (u # us) st =
     (case process_user env u st of (cs, st1) \<Rightarrow>
       (case process_users env us st1 of (rest, st2) \<Rightarrow> (cs @ rest, st2)))"

subsection \<open>One channel and the whole digest\<close>

text \<open>
  \<^verbatim>\<open>fetchChannelCasts\<close> (lines 109-207), with \<^verbatim>\<open>CHANNEL_USERS\<close> as the parameter
  \<open>cu\<close>. The result is \<open>Inr\<close> of the returned array, \<open>Inl\<close> of the message if
  the call threw; the \<^verbatim>\<open>catch\<close> of line 203 turns every error of the body into an
  empty array.
\<close>

definition fetchChannelCasts ::
  "'w env \<Rightarrow> (string \<times> user_ident list) list \<Rightarrow> string \<Rightarrow> 'w state
     \<Rightarrow> (string + digest_cast list) \<times> 'w state" where
  "fetchChannelCasts env cu ch st =
     (let now = Date_now env (world st);
          oneDayAgo = time_clip (now - 48 * 60 * 60 * 1000);
          users = (case map_of cu ch of None \<Rightarrow> [] | Some us \<Rightarrow> us)
      in if users = [] then (Inr [], st)
         else
           (case process_users env (take 4 users) st of (allCasts, st1) \<Rightarrow>
             (case recentCasts (Date_parse env) oneDayAgo allCasts of
                Inl msg \<Rightarrow> (Inr [], st1)
              | Inr recent \<Rightarrow> (Inr recent, st1))))"

text \<open>The loop of lines 426-435 over the channels. An error thrown by the call for a
  channel would give an entry with the error's message (line 433).\<close>

fun fetch_channels ::
  "'w env \<Rightarrow> (string \<times> user_ident list) list \<Rightarrow> string list \<Rightarrow> 'w state
     \<Rightarrow> entry list \<times> 'w state" where
  "fetch_channels env cu [] st = ([], st)"
| "fetch_channels env cu (ch # chs) st =
     (case fetchChannelCasts env cu ch st of (r, st1) \<Rightarrow>
       (let e = (case r of
                   Inr cs \<Rightarrow> \<lparr>channel = ch, casts = cs, error = None\<rparr>
                 | Inl msg \<Rightarrow> \<lparr>channel = ch, casts = [], error = Some msg\<rparr>)
        in case fetch_channels env cu chs st1 of (es, st2) \<Rightarrow> (e # es, st2)))"

text \<open>Line 406. A timestamp of 0 is falsy, like null.\<close>

definition isCacheValid :: "bool \<Rightarrow> 'w state \<Rightarrow> int \<Rightarrow> bool" where
  "isCacheValid forceRefresh st now =
     (\<not> forceRefresh \<and> cache_data st \<noteq> None \<and>
      (case cache_timestamp st of
         None \<Rightarrow> False
       | Some t \<Rightarrow> t \<noteq> 0 \<and> now - t < CACHE_DURATION))"

text \<open>
  The handler of \<^verbatim>\<open>GET /\<close> (lines 398-445), the spec's \<open>produceDigest\<close>. What it
  answers is the page made from the two arguments it gives \<^verbatim>\<open>generateHTML\<close>: the
  digest, which on a cache hit is \<^verbatim>\<open>cache.data\<close> as it stands, and the capture time.
  The channels are the keys of \<open>cu\<close> in its order, which is the order of
  \<^verbatim>\<open>Object.keys\<close> for keys like those of \<^verbatim>\<open>CHANNEL_USERS\<close>.
\<close>

definition app_get ::
  "'w env \<Rightarrow> (string \<times> user_ident list) list \<Rightarrow> bool \<Rightarrow> 'w state
     \<Rightarrow> (entry list option \<times> int option) \<times> 'w state" where
  "app_get env cu forceRefresh st =
     (let now = Date_now env (world st) in
      if isCacheValid forceRefresh st now
      then ((cache_data st, cache_timestamp st), st)
      else
        (case fetch_channels env cu (map fst cu) st of (digest, st1) \<Rightarrow>
          (let st2 = st1\<lparr>cache_data := Some digest,
                         cache_timestamp := Some (Date_now env (world st1))\<rparr>
           in ((Some digest, cache_timestamp st2), st2))))"

subsection \<open>Definitions used to state the properties\<close>

text \<open>
  The array the sort of line 199 is applied to: the casts fetched for the channel, in
  fetch order, that pass the filter, each with its score.
\<close>

definition fetched_casts ::
  "'w env \<Rightarrow> (string \<times> user_ident list) list \<Rightarrow> string \<Rightarrow> 'w state \<Rightarrow> cast_obj list" where
  "fetched_casts env cu ch st =
     (case map_of cu ch of
        None \<Rightarrow> []
      | Some users \<Rightarrow>
          (case those (fst (process_users env (take 4 users) st)) of None \<Rightarrow> [] | Some cs \<Rightarrow> cs))"

definition scored_in_fetch_order ::
  "'w env \<Rightarrow> (string \<times> user_ident list) list \<Rightarrow> string \<Rightarrow> 'w state \<Rightarrow> digest_cast list" where
  "scored_in_fetch_order env cu ch st =
     map digest_cast_of
       (filter (in_window (Date_parse env) (time_clip (Date_now env (world st) - 48 * 60 * 60 * 1000)))
          (fetched_casts env cu ch st))"

text \<open>
  The window as the spec words it (section 4.2): the cast's date is valid and lies in
  \<open>[now - 48 hours, now]\<close>.
\<close>

definition spec_in_window :: "int \<Rightarrow> (string \<Rightarrow> int option) \<Rightarrow> cast_obj \<Rightarrow> bool" where
  "spec_in_window now parse cast =
     (case new_Date parse (cast_timestamp cast) of
        None \<Rightarrow> False
      | Some t \<Rightarrow> now - 48 * 60 * 60 * 1000 \<le> t \<and> t \<le> now)"

text \<open>The window without its upper end: the cast's date is valid and not before
  \<open>now - 48 hours\<close>.\<close>

definition recent_enough :: "int \<Rightarrow> (string \<Rightarrow> int option) \<Rightarrow> cast_obj \<Rightarrow> bool" where
  "recent_enough now parse cast =
     (case new_Date parse (cast_timestamp cast) of
        None \<Rightarrow> False
      | Some t \<Rightarrow> now - 48 * 60 * 60 * 1000 \<le> t)"

text \<open>The state with other cache contents.\<close>

definition with_cache :: "entry list option \<Rightarrow> int option \<Rightarrow> 'w state \<Rightarrow> 'w state" where
  "with_cache d t st = st\<lparr>cache_data := d, cache_timestamp := t\<rparr>"

text \<open>The provider calls among the events, and the fetches a full pass over numeric
  rosters has to make: for every channel in order, its first four authors in order.\<close>

fun is_call :: "event \<Rightarrow> bool" where
  "is_call (LookupCall s) = True"
| "is_call (FetchCall fid limit) = True"
| "is_call (Delay ms) = False"

fun fetch_of :: "user_ident \<Rightarrow> event list" where
  "fetch_of (Fid n) = [FetchCall n 25]"
| "fetch_of (Username s) = []"

definition roster_fetches :: "user_ident list \<Rightarrow> event list" where
  "roster_fetches us = concat (map fetch_of (take 4 us))"

definition all_fetches :: "(string \<times> user_ident list) list \<Rightarrow> event list" where
  "all_fetches cu = concat (map (\<lambda>p. roster_fetches (snd p)) cu)"

fun is_numeric :: "user_ident \<Rightarrow> bool" where
  "is_numeric (Fid n) = True"
| "is_numeric (Username s) = False"

text \<open>
  A provider failure for one author, at the state in which the loop reaches that
  author: the resolution of the name gives no id (the lookup throws, or answers without
  an id), or the fetch for the id throws.
\<close>

definition fetch_fails :: "'w env \<Rightarrow> int \<Rightarrow> 'w \<Rightarrow> bool" where
  "fetch_fails env fid w =
     (case fetch_method_of env of
        None \<Rightarrow> False
      | Some m \<Rightarrow> (case fst (m fid 25 w) of Inl msg \<Rightarrow> True | Inr r \<Rightarrow> False))"

definition author_fails :: "'w env \<Rightarrow> user_ident \<Rightarrow> 'w state \<Rightarrow> bool" where
  "author_fails env u st =
     (case resolve_fid env u st of
        (None, st1) \<Rightarrow> True
      | (Some fid, st1) \<Rightarrow> fetch_fails env fid (world st1))"

subsection \<open>Concrete inputs\<close>

text \<open>A cast object without any property.\<close>

definition no_counts :: cast_obj where
  "no_counts =
     \<lparr>cast_text = None, cast_author = None, cast_reactions = None, cast_replies = None,
      cast_likes = None, cast_recasts = None, cast_timestamp = None, cast_hash = None\<rparr>"

text \<open>A cast that has a timestamp only.\<close>

definition cast_at :: "ts_val option \<Rightarrow> cast_obj" where
  "cast_at ts = no_counts\<lparr>cast_timestamp := ts\<rparr>"

text \<open>A cast dated 100000 seconds before the clock 1700000000000 of the examples.\<close>

definition recent_cast :: cast_obj where
  "recent_cast = cast_at (Some (TsNum 1699900000000))"

text \<open>
  A world that is only a clock in milliseconds: a delay advances it, a provider call
  takes no time. The client has \<^verbatim>\<open>fetchCastsForUser\<close>, given as \<open>m\<close>; no name
  resolves and no string parses.
\<close>

definition clock_env :: "int fetch_method \<Rightarrow> int env" where
  "clock_env m =
     \<lparr>lookupUserByUsername = (\<lambda>s w. (Inl ''not found'', w)),
      fetchCastsForUser = Some m,
      fetchUserCasts = None,
      setTimeout = (\<lambda>ms w. w + int ms),
      Date_now = (\<lambda>w. w),
      parseInt = (\<lambda>s. None),
      Date_parse = (\<lambda>s. None)\<rparr>"

definition start :: "int \<Rightarrow> int state" where
  "start now = \<lparr>world = now, trace = [], cache_data = None, cache_timestamp = None\<rparr>"

text \<open>A fetch method that answers every author with the same casts.\<close>

definition reply_with :: "cast_obj option list \<Rightarrow> int fetch_method" where
  "reply_with cs =
     (\<lambda>fid limit w.
        (Inr (Some \<lparr>response_result_casts = None, response_casts = Some cs,
                    response_data_casts = None\<rparr>), w))"

text \<open>A fetch method that throws for one author and answers the others with the same
  casts.\<close>

definition failing_for :: "int \<Rightarrow> cast_obj option list \<Rightarrow> int fetch_method" where
  "failing_for bad cs =
     (\<lambda>fid limit w. if fid = bad then (Inl ''Too Many Requests'', w) else reply_with cs fid limit w)"

text \<open>A fetch method that answers one author with an array holding null and the
  others with the same casts.\<close>

definition null_for :: "int \<Rightarrow> cast_obj option list \<Rightarrow> int fetch_method" where
  "null_for bad cs =
     (\<lambda>fid limit w. if fid = bad then reply_with [None] fid limit w else reply_with cs fid limit w)"

text \<open>A recent cast in the older response shape: three likes in \<^verbatim>\<open>cast.likes\<close>, no
  \<^verbatim>\<open>cast.reactions\<close>.\<close>

definition legacy_cast :: cast_obj where
  "legacy_cast =
     recent_cast\<lparr>cast_likes := Some [Reaction 11 ''ann'', Reaction 12 ''bob'', Reaction 13 ''cy'']\<rparr>"

text \<open>A pass over \<open>CHANNEL_USERS\<close> in which every author has no casts: the digest it
  gives and the events it leaves.\<close>

definition all_empty :: "entry list" where
  "all_empty = map (\<lambda>p. \<lparr>channel = fst p, casts = [], error = None\<rparr>) CHANNEL_USERS"

definition seven_fetches :: "event list" where
  "seven_fetches =
     concat (map (\<lambda>n. [FetchCall n 25, Delay 2000]) [1325, 15983, 99, 3621, 8152, 3, 221255])"

section \<open>Theorems\<close>

subsection \<open>The score\<close>

lemma num_or_0_spec_count: "num_or_0 c = spec_count c"
  by (simp add: num_or_0_def spec_count_def split: option.splits)

text \<open>
  C2. For every cast the engagement score is likes + 2 * replies + 3 * recasts of the
  cast's reaction and reply counts, a missing count read as 0; a cast with no counts
  scores 0. The scorer is a total function of the cast alone: it has no state to
  change and no error result.
\<close>

theorem calculateScore_spec:
  "calculateScore cast = spec_score (likes_count cast) (reply_count cast) (recasts_count cast)
   \<and> calculateScore no_counts = 0"
  by (simp add: calculateScore_def spec_score_def num_or_0_spec_count length_of_def
      likes_count_def reply_count_def recasts_count_def no_counts_def spec_count_def
      split: option.splits)

subsection \<open>Author names\<close>



subsection \<open>Sorting by descending score\<close>

lemma insert_cmp_insort:
  "insert_cmp (\<lambda>a b. score b - score a) x ys = insort_key (\<lambda>r. - score r) x ys"
  by (induction ys) auto

lemma js_sort_sort_key:
  "js_sort (\<lambda>a b. score b - score a) xs = sort_key (\<lambda>r. - score r) xs"
  by (induction xs) (simp_all add: js_sort_def insert_cmp_insort)

lemma js_sort_sorted:
  "sorted_wrt (\<lambda>a b. score b \<le> score a) (js_sort (\<lambda>a b. score b - score a) xs)"
proof -
  have "sorted (map (\<lambda>r. - score r) (sort_key (\<lambda>r. - score r) xs))"
    by (rule sorted_sort_key)
  then show ?thesis by (simp add: js_sort_sort_key sorted_map)
qed

lemma js_sort_stable:
  "filter (\<lambda>r. score r = k) (js_sort (\<lambda>a b. score b - score a) xs) = filter (\<lambda>r. score r = k) xs"
proof -
  have "filter (\<lambda>r. - score r = - k) (sort_key (\<lambda>r. - score r) xs)
      = filter (\<lambda>r. - score r = - k) xs"
    by (rule sort_key_stable)
  then show ?thesis by (simp add: js_sort_sort_key)
qed

subsection \<open>The ranked list of a channel\<close>

lemma rank_casts_props:
  "length (rank_casts p d cs) \<le> 5
   \<and> sorted_wrt (\<lambda>a b. score b \<le> score a) (rank_casts p d cs)
   \<and> prefix (filter (\<lambda>r. score r = k) (rank_casts p d cs))
        (filter (\<lambda>r. score r = k) (map digest_cast_of (filter (in_window p d) cs)))"
proof -
  let ?xs = "map digest_cast_of (filter (in_window p d) cs)"
  let ?s = "js_sort (\<lambda>a b. score b - score a) ?xs"
  have r: "rank_casts p d cs = take 5 ?s" by (simp add: rank_casts_def)
  have "prefix (take 5 ?s) ?s" by (rule take_is_prefix)
  then have "prefix (filter (\<lambda>r. score r = k) (take 5 ?s)) (filter (\<lambda>r. score r = k) ?s)"
    by (rule filter_mono_prefix)
  then have st: "prefix (filter (\<lambda>r. score r = k) (take 5 ?s)) (filter (\<lambda>r. score r = k) ?xs)"
    by (simp only: js_sort_stable)
  have so: "sorted_wrt (\<lambda>a b. score b \<le> score a) (take 5 ?s)"
    using js_sort_sorted by (rule sorted_wrt_take)
  show ?thesis unfolding r using st so by simp
qed

text \<open>Whatever happens, the channel's array is the ranking of the casts that were
  fetched; an error of the body leaves no fetched cast and an empty array.\<close>

lemma fetchChannelCasts_rank:
  "fst (fetchChannelCasts env cu ch st) =
     Inr (rank_casts (Date_parse env) (time_clip (Date_now env (world st) - 48 * 60 * 60 * 1000))
            (fetched_casts env cu ch st))"
  by (auto simp: fetchChannelCasts_def fetched_casts_def recentCasts_def Let_def rank_casts_def
      js_sort_def split: option.splits prod.splits sum.splits)

lemma fetch_channels_entries:
  assumes P: "\<And>ch st0 rs. fst (fetchChannelCasts env cu ch st0) = Inr rs \<Longrightarrow> P rs"
  shows "list_all (\<lambda>e. P (casts e) \<and> error e = None) (fst (fetch_channels env cu chs st))"
proof (induction chs arbitrary: st)
  case Nil
  then show ?case by simp
next
  case (Cons ch chs)
  obtain r st1 where f: "fetchChannelCasts env cu ch st = (r, st1)"
    by (cases "fetchChannelCasts env cu ch st")
  obtain es st2 where g: "fetch_channels env cu chs st1 = (es, st2)"
    by (cases "fetch_channels env cu chs st1")
  from fetchChannelCasts_rank [of env cu ch st] f obtain cs where r: "r = Inr cs" by simp
  have "P cs" using P [of ch st cs] f r by simp
  moreover from Cons.IH [of st1] g
  have "list_all (\<lambda>e. P (casts e) \<and> error e = None) es" by simp
  ultimately show ?case using f g r by simp
qed

text \<open>
  C3. The array a channel returns, which is the cast list of the channel's entry, has at
  most 5 elements and is sorted by non-increasing score; casts of equal score keep their
  fetch order: for every score, the returned casts of that score are the first ones, in
  order, of the fetched and filtered casts of that score. The same bound and order hold
  for every entry of a digest.
\<close>

theorem channel_casts_top5_sorted_stable:
  "(\<exists>rs. fst (fetchChannelCasts env cu ch st) = Inr rs
     \<and> length rs \<le> 5
     \<and> sorted_wrt (\<lambda>a b. score b \<le> score a) rs
     \<and> (\<forall>k. prefix (filter (\<lambda>r. score r = k) rs)
               (filter (\<lambda>r. score r = k) (scored_in_fetch_order env cu ch st))))
   \<and> list_all (\<lambda>e. length (casts e) \<le> 5 \<and> sorted_wrt (\<lambda>a b. score b \<le> score a) (casts e))
       (fst (fetch_channels env cu chs st'))"
proof
  show "\<exists>rs. fst (fetchChannelCasts env cu ch st) = Inr rs
     \<and> length rs \<le> 5
     \<and> sorted_wrt (\<lambda>a b. score b \<le> score a) rs
     \<and> (\<forall>k. prefix (filter (\<lambda>r. score r = k) rs)
               (filter (\<lambda>r. score r = k) (scored_in_fetch_order env cu ch st)))"
    unfolding fetchChannelCasts_rank scored_in_fetch_order_def
    using rank_casts_props by blast
next
  have "list_all (\<lambda>e. (length (casts e) \<le> 5 \<and> sorted_wrt (\<lambda>a b. score b \<le> score a) (casts e))
          \<and> error e = None) (fst (fetch_channels env cu chs st'))"
  proof (rule fetch_channels_entries)
    fix ch0 st0 rs
    assume "fst (fetchChannelCasts env cu ch0 st0) = Inr rs"
    then show "length rs \<le> 5 \<and> sorted_wrt (\<lambda>a b. score b \<le> score a) rs"
      unfolding fetchChannelCasts_rank using rank_casts_props by auto
  qed
  then show "list_all (\<lambda>e. length (casts e) \<le> 5 \<and> sorted_wrt (\<lambda>a b. score b \<le> score a) (casts e))
       (fst (fetch_channels env cu chs st'))"
    by (simp add: list_all_iff)
qed

subsection \<open>The time window\<close>

lemma in_window_recent_enough:
  "\<bar>now - 48 * 60 * 60 * 1000\<bar> \<le> 8640000000000000 \<Longrightarrow>
   in_window parse (time_clip (now - 48 * 60 * 60 * 1000)) cast = recent_enough now parse cast"
  by (simp add: in_window_def recent_enough_def date_ge_def time_clip_def split: option.splits)

text \<open>
  C1, as the code has it. Let \<open>now\<close> be the clock at the start of the channel's
  aggregation (with \<open>now - 48 hours\<close> a date the language can represent), and let the
  array \<open>allCasts\<close> that the loop has fetched for the channel's first four authors hold
  no null element, so that it is the list \<open>cs\<close> of cast objects. Then the channel's
  result is the ranking of exactly those casts of \<open>cs\<close> whose timestamp gives a valid
  date not before \<open>now - 48 hours\<close>, that instant included. A cast whose timestamp is
  missing, does not parse or is older is left out; there is no upper end, so a cast dated
  after \<open>now\<close> is kept.
\<close>

theorem window_has_no_upper_end:
  assumes "\<bar>Date_now env (world st) - 48 * 60 * 60 * 1000\<bar> \<le> 8640000000000000"
    and "map_of cu ch = Some users"
    and "process_users env (take 4 users) st = (allCasts, st1)"
    and "those allCasts = Some cs"
  shows "fetchChannelCasts env cu ch st =
           (Inr (take 5 (js_sort (\<lambda>a b. score b - score a)
              (map digest_cast_of
                (filter (recent_enough (Date_now env (world st)) (Date_parse env)) cs)))),
            st1)
         \<and> recent_enough now parse cast =
             (\<exists>t. new_Date parse (cast_timestamp cast) = Some t \<and> now - 172800000 \<le> t)
         \<and> (new_Date parse (cast_timestamp cast) = Some t \<and> now < t
              \<longrightarrow> recent_enough now parse cast)"
proof -
  have w: "in_window (Date_parse env) (time_clip (Date_now env (world st) - 48 * 60 * 60 * 1000))
      = recent_enough (Date_now env (world st)) (Date_parse env)"
    using in_window_recent_enough [OF assms(1)] by (intro ext)
  have run: "fetchChannelCasts env cu ch st =
           (Inr (take 5 (js_sort (\<lambda>a b. score b - score a)
              (map digest_cast_of
                (filter (recent_enough (Date_now env (world st)) (Date_parse env)) cs)))),
            st1)"
  proof (cases "users = []")
    case True
    with assms(3,4) have "cs = []" and "st1 = st" by auto
    with True assms(2) show ?thesis by (simp add: fetchChannelCasts_def js_sort_def)
  next
    case False
    from w have "in_window (Date_parse env) (time_clip (Date_now env (world st) - 172800000))
        = recent_enough (Date_now env (world st)) (Date_parse env)"
      by simp
    with False assms(2,3,4) show ?thesis
      by (simp add: fetchChannelCasts_def recentCasts_def rank_casts_def)
  qed
  have char: "recent_enough now parse cast =
             (\<exists>t. new_Date parse (cast_timestamp cast) = Some t \<and> now - 172800000 \<le> t)"
    by (simp add: recent_enough_def split: option.splits)
  have fut: "new_Date parse (cast_timestamp cast) = Some t \<and> now < t
              \<longrightarrow> recent_enough now parse cast"
    by (simp add: recent_enough_def)
  show ?thesis using run char fut by blast
qed

text \<open>
  At the clock 1700000000000 the author's four casts are dated 100000 seconds earlier,
  900000 seconds earlier, not at all and by a string that does not parse: the first
  only is kept.
\<close>

theorem window_has_no_upper_end_witness:
  "\<bar>Date_now (clock_env (reply_with
        [Some recent_cast, Some (cast_at (Some (TsNum 1699100000000))),
         Some (cast_at None), Some (cast_at (Some (TsStr ''soon'')))]))
      (world (start 1700000000000)) - 48 * 60 * 60 * 1000\<bar> \<le> 8640000000000000
   \<and> map_of CHANNEL_USERS ''/higher'' = Some [Fid 3]
   \<and> process_users (clock_env (reply_with
        [Some recent_cast, Some (cast_at (Some (TsNum 1699100000000))),
         Some (cast_at None), Some (cast_at (Some (TsStr ''soon'')))])) (take 4 [Fid 3])
        (start 1700000000000)
      = ([Some recent_cast, Some (cast_at (Some (TsNum 1699100000000))),
          Some (cast_at None), Some (cast_at (Some (TsStr ''soon'')))],
         \<lparr>world = 1700000002000, trace = [FetchCall 3 25, Delay 2000],
          cache_data = None, cache_timestamp = None\<rparr>)
   \<and> those [Some recent_cast, Some (cast_at (Some (TsNum 1699100000000))),
          Some (cast_at None), Some (cast_at (Some (TsStr ''soon'')))]
      = Some [recent_cast, cast_at (Some (TsNum 1699100000000)),
          cast_at None, cast_at (Some (TsStr ''soon''))]
   \<and> new_Date (\<lambda>s. None) (cast_timestamp (cast_at (Some (TsNum 1700000000001))))
        = Some 1700000000001
   \<and> (1700000000000 :: int) < 1700000000001
   \<and> recent_enough 1700000000000 (\<lambda>s. None) (cast_at (Some (TsNum 1700000000001)))
   \<and> fetchChannelCasts (clock_env (reply_with
        [Some recent_cast, Some (cast_at (Some (TsNum 1699100000000))),
         Some (cast_at None), Some (cast_at (Some (TsStr ''soon'')))]))
        CHANNEL_USERS ''/higher'' (start 1700000000000)
     = (Inr [digest_cast_of recent_cast],
        \<lparr>world = 1700000002000, trace = [FetchCall 3 25, Delay 2000],
         cache_data = None, cache_timestamp = None\<rparr>)"
proof -
  let ?cs = "[Some recent_cast, Some (cast_at (Some (TsNum 1699100000000))),
         Some (cast_at None), Some (cast_at (Some (TsStr ''soon'')))]"
  let ?env = "clock_env (reply_with ?cs)"
  let ?st1 = "\<lparr>world = 1700000002000, trace = [FetchCall 3 25, Delay 2000],
         cache_data = None, cache_timestamp = None\<rparr> :: int state"
  have h1: "\<bar>Date_now ?env (world (start 1700000000000)) - 48 * 60 * 60 * 1000\<bar>
              \<le> 8640000000000000"
    by (simp add: clock_env_def start_def)
  have h2: "map_of CHANNEL_USERS ''/higher'' = Some [Fid 3]" by (simp add: CHANNEL_USERS_def)
  have h3: "process_users ?env (take 4 [Fid 3]) (start 1700000000000) = (?cs, ?st1)"
    by (simp add: clock_env_def reply_with_def start_def process_user_def fetch_casts_def
        fetch_method_of_def response_casts_of_def sleep_def)
  have h4: "those ?cs = Some [recent_cast, cast_at (Some (TsNum 1699100000000)),
          cast_at None, cast_at (Some (TsStr ''soon''))]"
    by simp
  have h5: "new_Date (\<lambda>s. None) (cast_timestamp (cast_at (Some (TsNum 1700000000001))))
        = Some 1700000000001"
    by (simp add: cast_at_def time_clip_def)
  have kept: "filter (recent_enough (Date_now ?env (world (start 1700000000000))) (Date_parse ?env))
        [recent_cast, cast_at (Some (TsNum 1699100000000)),
          cast_at None, cast_at (Some (TsStr ''soon''))] = [recent_cast]"
    by (simp add: recent_enough_def recent_cast_def cast_at_def time_clip_def clock_env_def
        start_def)
  from window_has_no_upper_end [OF h1 h2 h3 h4, of 1700000000000 "\<lambda>s. None"
      "cast_at (Some (TsNum 1700000000001))" 1700000000001] h1 h2 h3 h4 h5 kept
  show ?thesis by (simp add: js_sort_def)
qed

text \<open>
  The claim C1 as worded fails: at the clock 1700000000000 a cast dated one millisecond
  later is outside \<open>[now - 48 hours, now]\<close> and is in the channel's result.
\<close>

theorem future_cast_retained:
  "\<not> spec_in_window 1700000000000 (\<lambda>s. None) (cast_at (Some (TsNum 1700000000001)))
   \<and> fst (fetchChannelCasts (clock_env (reply_with [Some (cast_at (Some (TsNum 1700000000001)))]))
            CHANNEL_USERS ''/higher'' (start 1700000000000))
     = Inr [digest_cast_of (cast_at (Some (TsNum 1700000000001)))]"
  by (simp add: spec_in_window_def cast_at_def no_counts_def time_clip_def fetchChannelCasts_def
      CHANNEL_USERS_def clock_env_def reply_with_def start_def process_user_def fetch_casts_def
      fetch_method_of_def response_casts_of_def sleep_def recentCasts_def rank_casts_def
      in_window_def date_ge_def js_sort_def)

subsection \<open>The cache\<close>

lemma app_get_caches:
  assumes "app_get env cu forceRefresh st = ((d1, ts1), st1)"
  shows "cache_data st1 = d1 \<and> cache_timestamp st1 = ts1 \<and> d1 \<noteq> None"
proof (cases "isCacheValid forceRefresh st (Date_now env (world st))")
  case True
  then have "cache_data st \<noteq> None" by (simp add: isCacheValid_def)
  then show ?thesis using assms True by (auto simp: app_get_def)
next
  case False
  then show ?thesis using assms by (auto simp: app_get_def Let_def split: prod.splits)
qed

lemma app_get_hit:
  assumes "cache_data st = Some d" "cache_timestamp st = Some t" "t \<noteq> 0"
    "Date_now env (world st) - t < 30 * 60 * 1000"
  shows "app_get env cu False st = ((Some d, Some t), st)"
  using assms by (simp add: app_get_def isCacheValid_def CACHE_DURATION_def)

text \<open>
  C4. After any call of the handler has answered a digest with a capture time, a second
  call without forceRefresh, made while the cache still holds what the first call left
  and less than 30 minutes of the clock after the capture time, answers the same digest
  and capture time and leaves the whole state as it found it: no event is added, so no
  provider call is made. The capture time is not the instant 0 of the clock, which
  JavaScript reads as an absent timestamp.
\<close>

theorem second_call_served_from_cache:
  assumes "app_get env cu forceRefresh st = ((d1, ts1), st1)"
    and "cache_data st2 = cache_data st1" and "cache_timestamp st2 = cache_timestamp st1"
    and "ts1 = Some t" and "t \<noteq> 0"
    and "Date_now env (world st2) - t < 30 * 60 * 1000"
  shows "app_get env cu False st2 = ((d1, ts1), st2)
         \<and> trace (snd (app_get env cu False st2)) = trace st2"
proof -
  from app_get_caches [OF assms(1)] assms(2,3,4)
  obtain d where "d1 = Some d" "cache_data st2 = Some d" "cache_timestamp st2 = Some t"
    by auto
  with app_get_hit [OF this(2,3) assms(5,6)] assms(4) show ?thesis by simp
qed

text \<open>A first call on an empty cache at the clock 1700000000000, a second call one
  minute after the first has ended.\<close>

theorem second_call_served_from_cache_witness:
  "app_get (clock_env (reply_with [])) CHANNEL_USERS False (start 1700000000000)
     = ((Some all_empty, Some 1700000014000),
        \<lparr>world = 1700000014000, trace = seven_fetches,
         cache_data = Some all_empty, cache_timestamp = Some 1700000014000\<rparr>)
   \<and> (1700000014000 :: int) \<noteq> 0
   \<and> Date_now (clock_env (reply_with [])) 1700000074000 - 1700000014000 < 30 * 60 * 1000
   \<and> app_get (clock_env (reply_with [])) CHANNEL_USERS False
        \<lparr>world = 1700000074000, trace = seven_fetches,
         cache_data = Some all_empty, cache_timestamp = Some 1700000014000\<rparr>
      = ((Some all_empty, Some 1700000014000),
         \<lparr>world = 1700000074000, trace = seven_fetches,
          cache_data = Some all_empty, cache_timestamp = Some 1700000014000\<rparr>)"
proof -
  have first: "app_get (clock_env (reply_with [])) CHANNEL_USERS False (start 1700000000000)
     = ((Some all_empty, Some 1700000014000),
        \<lparr>world = 1700000014000, trace = seven_fetches,
         cache_data = Some all_empty, cache_timestamp = Some 1700000014000\<rparr>)"
    by (simp add: app_get_def isCacheValid_def fetchChannelCasts_def CHANNEL_USERS_def
        clock_env_def reply_with_def start_def process_user_def fetch_casts_def
        fetch_method_of_def response_casts_of_def sleep_def recentCasts_def rank_casts_def
        js_sort_def all_empty_def seven_fetches_def)
  have age: "Date_now (clock_env (reply_with [])) 1700000074000 - 1700000014000 < 30 * 60 * 1000"
    by (simp add: clock_env_def)
  from second_call_served_from_cache [OF first, of
      "\<lparr>world = 1700000074000, trace = seven_fetches,
         cache_data = Some all_empty, cache_timestamp = Some 1700000014000\<rparr>" 1700000014000]
    first age
  show ?thesis by simp
qed

subsection \<open>What a pass does not depend on, and the calls it makes\<close>

lemma sleep_with_cache: "sleep env ms (with_cache d t st) = with_cache d t (sleep env ms st)"
  by (simp add: sleep_def with_cache_def)

lemma resolve_fid_with_cache:
  "resolve_fid env u (with_cache d t st) = apsnd (with_cache d t) (resolve_fid env u st)"
  by (cases u)
    (auto simp: with_cache_def sleep_def Let_def split: option.splits prod.splits sum.splits)

lemma fetch_casts_with_cache:
  "fetch_casts env fid (with_cache d t st) = apsnd (with_cache d t) (fetch_casts env fid st)"
  by (auto simp: fetch_casts_def with_cache_def sleep_def Let_def
      split: option.splits prod.splits sum.splits)

lemma process_user_with_cache:
  "process_user env u (with_cache d t st) = apsnd (with_cache d t) (process_user env u st)"
  by (auto simp: process_user_def resolve_fid_with_cache fetch_casts_with_cache
      split: option.splits prod.splits)

lemma process_users_with_cache:
  "process_users env us (with_cache d t st) = apsnd (with_cache d t) (process_users env us st)"
  by (induction us arbitrary: st) (auto simp: process_user_with_cache split: prod.splits)

lemma fetchChannelCasts_with_cache:
  "fetchChannelCasts env cu ch (with_cache d t st)
     = apsnd (with_cache d t) (fetchChannelCasts env cu ch st)"
proof -
  have w: "world (with_cache d t st) = world st" by (simp add: with_cache_def)
  show ?thesis
    by (auto simp: fetchChannelCasts_def process_users_with_cache w Let_def
        split: option.splits prod.splits sum.splits)
qed

lemma fetch_channels_with_cache:
  "fetch_channels env cu chs (with_cache d t st)
     = apsnd (with_cache d t) (fetch_channels env cu chs st)"
  by (induction chs arbitrary: st) (auto simp: fetchChannelCasts_with_cache split: prod.splits)

lemma fetch_channels_channel: "map channel (fst (fetch_channels env cu chs st)) = chs"
proof (induction chs arbitrary: st)
  case Nil
  then show ?case by simp
next
  case (Cons ch chs)
  obtain r st1 where f: "fetchChannelCasts env cu ch st = (r, st1)"
    by (cases "fetchChannelCasts env cu ch st")
  obtain es st2 where g: "fetch_channels env cu chs st1 = (es, st2)"
    by (cases "fetch_channels env cu chs st1")
  from Cons.IH [of st1] g have "map channel es = chs" by simp
  then show ?case using f g by (cases r) simp_all
qed

lemma fetch_casts_calls:
  assumes "fetch_method_of env = Some m"
  shows "filter is_call (trace (snd (fetch_casts env fid st)))
           = filter is_call (trace st) @ [FetchCall fid 25]"
  using assms
  by (auto simp: fetch_casts_def sleep_def Let_def split: prod.splits sum.splits option.splits)

lemma process_user_calls:
  assumes "fetch_method_of env = Some m" "is_numeric u"
  shows "filter is_call (trace (snd (process_user env u st)))
           = filter is_call (trace st) @ fetch_of u"
  using assms by (cases u) (simp_all add: process_user_def fetch_casts_calls)

lemma process_users_calls:
  assumes "fetch_method_of env = Some m" "list_all is_numeric us"
  shows "filter is_call (trace (snd (process_users env us st)))
           = filter is_call (trace st) @ concat (map fetch_of us)"
  using assms(2)
proof (induction us arbitrary: st)
  case Nil
  then show ?case by simp
next
  case (Cons u us)
  obtain cs st1 where p: "process_user env u st = (cs, st1)" by (cases "process_user env u st")
  obtain rest st2 where q: "process_users env us st1 = (rest, st2)"
    by (cases "process_users env us st1")
  from Cons.prems have nu: "is_numeric u" and nus: "list_all is_numeric us" by simp_all
  from process_user_calls [OF assms(1) nu, of st] p
  have a: "filter is_call (trace st1) = filter is_call (trace st) @ fetch_of u" by simp
  from Cons.IH [OF nus, of st1] q
  have b: "filter is_call (trace st2) = filter is_call (trace st1) @ concat (map fetch_of us)"
    by simp
  show ?case using p q a b by simp
qed

lemma fetchChannelCasts_calls:
  assumes "fetch_method_of env = Some m" "map_of cu ch = Some us" "list_all is_numeric us"
  shows "filter is_call (trace (snd (fetchChannelCasts env cu ch st)))
           = filter is_call (trace st) @ roster_fetches us"
proof (cases "us = []")
  case True
  then show ?thesis using assms(2) by (simp add: fetchChannelCasts_def roster_fetches_def)
next
  case False
  obtain allCasts st1 where p: "process_users env (take 4 us) st = (allCasts, st1)"
    by (cases "process_users env (take 4 us) st")
  have "list_all is_numeric (take 4 us)"
    using assms(3) by (auto simp: list_all_iff dest: in_set_takeD)
  from process_users_calls [OF assms(1) this, of st] p
  have "filter is_call (trace st1) = filter is_call (trace st) @ roster_fetches us"
    by (simp add: roster_fetches_def)
  then show ?thesis using False assms(2) p
    by (simp add: fetchChannelCasts_def Let_def split: sum.splits)
qed

lemma fetch_channels_calls:
  assumes "fetch_method_of env = Some m"
    and "list_all (\<lambda>p. map_of cu (fst p) = Some (snd p) \<and> list_all is_numeric (snd p)) ps"
  shows "filter is_call (trace (snd (fetch_channels env cu (map fst ps) st)))
           = filter is_call (trace st) @ concat (map (\<lambda>p. roster_fetches (snd p)) ps)"
  using assms(2)
proof (induction ps arbitrary: st)
  case Nil
  then show ?case by simp
next
  case (Cons p ps)
  obtain r st1 where f: "fetchChannelCasts env cu (fst p) st = (r, st1)"
    by (cases "fetchChannelCasts env cu (fst p) st")
  obtain es st2 where g: "fetch_channels env cu (map fst ps) st1 = (es, st2)"
    by (cases "fetch_channels env cu (map fst ps) st1")
  from Cons.prems have hp: "map_of cu (fst p) = Some (snd p)" "list_all is_numeric (snd p)"
    and hps: "list_all (\<lambda>p. map_of cu (fst p) = Some (snd p) \<and> list_all is_numeric (snd p)) ps"
    by simp_all
  from fetchChannelCasts_calls [OF assms(1) hp, of st] f
  have a: "filter is_call (trace st1) = filter is_call (trace st) @ roster_fetches (snd p)"
    by simp
  from Cons.IH [OF hps, of st1] g
  have b: "filter is_call (trace st2)
             = filter is_call (trace st1) @ concat (map (\<lambda>p. roster_fetches (snd p)) ps)"
    by simp
  show ?case using f g a b by simp
qed

lemma map_of_config:
  assumes "distinct (map fst cu)"
  shows "list_all (\<lambda>p. map_of cu (fst p) = Some (snd p)) cu"
  using assms by (auto simp: list_all_iff)

text \<open>
  C5. With forceRefresh the handler, whatever the cache holds (\<open>d\<close> and \<open>t\<close> are
  any contents), runs the pass over all configured channels in order from the
  current state, answers the digest of that pass, which has one entry for every
  configured channel in order, and replaces the cache's data by that digest and its
  timestamp by the clock at the end of the pass, both together. Where the configuration
  has distinct channels and numeric authors and the client has a fetch method, the
  provider calls of the pass are one fetch for each of the first four authors of every
  channel, in order.
\<close>

theorem forced_refresh_refetches_and_overwrites:
  "\<exists>digest st1.
     fetch_channels env cu (map fst cu) st = (digest, st1)
     \<and> app_get env cu True (with_cache d t st)
         = ((Some digest, Some (Date_now env (world st1))),
            with_cache (Some digest) (Some (Date_now env (world st1))) st1)
     \<and> map channel digest = map fst cu
     \<and> (distinct (map fst cu) \<and> list_all (\<lambda>p. list_all is_numeric (snd p)) cu
          \<and> fetch_method_of env \<noteq> None
        \<longrightarrow> filter is_call (trace st1) = filter is_call (trace st) @ all_fetches cu)"
proof -
  obtain digest st1 where f: "fetch_channels env cu (map fst cu) st = (digest, st1)"
    by (cases "fetch_channels env cu (map fst cu) st")
  have a: "app_get env cu True (with_cache d t st)
         = ((Some digest, Some (Date_now env (world st1))),
            with_cache (Some digest) (Some (Date_now env (world st1))) st1)"
  proof -
    have "fetch_channels env cu (map fst cu) (with_cache d t st) = (digest, with_cache d t st1)"
      using f by (simp add: fetch_channels_with_cache)
    moreover have "world (with_cache d t st1) = world st1"
      and "with_cache (Some digest) (Some (Date_now env (world st1))) (with_cache d t st1)
             = with_cache (Some digest) (Some (Date_now env (world st1))) st1"
      by (simp_all add: with_cache_def)
    ultimately show ?thesis
      by (simp add: app_get_def isCacheValid_def) (simp add: with_cache_def)
  qed
  have b: "map channel digest = map fst cu"
    using fetch_channels_channel [of env cu "map fst cu" st] f by simp
  have c: "filter is_call (trace st1) = filter is_call (trace st) @ all_fetches cu"
    if h: "distinct (map fst cu)" "list_all (\<lambda>p. list_all is_numeric (snd p)) cu"
      "fetch_method_of env \<noteq> None"
  proof -
    from h(3) obtain m where m: "fetch_method_of env = Some m" by auto
    have "list_all (\<lambda>p. map_of cu (fst p) = Some (snd p) \<and> list_all is_numeric (snd p)) cu"
      using map_of_config [OF h(1)] h(2) by (simp add: list_all_iff)
    from fetch_channels_calls [OF m this, of st] f show ?thesis
      by (simp add: all_fetches_def)
  qed
  show ?thesis using f a b c by blast
qed

text \<open>A forced refresh one minute after a pass that has filled the cache.\<close>

theorem forced_refresh_refetches_and_overwrites_witness:
  "distinct (map fst CHANNEL_USERS)
   \<and> list_all (\<lambda>p. list_all is_numeric (snd p)) CHANNEL_USERS
   \<and> fetch_method_of (clock_env (reply_with [])) \<noteq> None
   \<and> app_get (clock_env (reply_with [])) CHANNEL_USERS True
        \<lparr>world = 1700000074000, trace = seven_fetches,
         cache_data = Some all_empty, cache_timestamp = Some 1700000014000\<rparr>
      = ((Some all_empty, Some 1700000088000),
         \<lparr>world = 1700000088000, trace = seven_fetches @ seven_fetches,
          cache_data = Some all_empty, cache_timestamp = Some 1700000088000\<rparr>)
   \<and> filter is_call (seven_fetches @ seven_fetches)
      = filter is_call seven_fetches @ all_fetches CHANNEL_USERS"
proof -
  have run: "fetch_channels (clock_env (reply_with [])) CHANNEL_USERS (map fst CHANNEL_USERS)
        \<lparr>world = 1700000074000, trace = seven_fetches, cache_data = None, cache_timestamp = None\<rparr>
      = (all_empty,
         \<lparr>world = 1700000088000, trace = seven_fetches @ seven_fetches,
          cache_data = None, cache_timestamp = None\<rparr>)"
    by (simp add: fetchChannelCasts_def CHANNEL_USERS_def
        clock_env_def reply_with_def process_user_def fetch_casts_def
        fetch_method_of_def response_casts_of_def sleep_def recentCasts_def rank_casts_def
        js_sort_def all_empty_def seven_fetches_def)
  have hyp: "distinct (map fst CHANNEL_USERS)
       \<and> list_all (\<lambda>p. list_all is_numeric (snd p)) CHANNEL_USERS
       \<and> fetch_method_of (clock_env (reply_with [])) \<noteq> None"
    by (simp add: CHANNEL_USERS_def fetch_method_of_def clock_env_def)
  from forced_refresh_refetches_and_overwrites [of "clock_env (reply_with [])" CHANNEL_USERS
      "\<lparr>world = 1700000074000, trace = seven_fetches, cache_data = None, cache_timestamp = None\<rparr>"
      "Some all_empty" "Some 1700000014000"] run hyp
  show ?thesis by (simp add: with_cache_def clock_env_def)
qed

subsection \<open>Failures of one author\<close>

lemma process_users_append:
  "process_users env (xs @ ys) st =
     (case process_users env xs st of (a, st1) \<Rightarrow>
       (case process_users env ys st1 of (b, st2) \<Rightarrow> (a @ b, st2)))"
  by (induction xs arbitrary: st) (auto split: prod.splits)

lemma failed_author_adds_nothing:
  assumes "author_fails env u st"
  shows "fst (process_user env u st) = []"
  using assms
  by (auto simp: author_fails_def process_user_def fetch_fails_def fetch_casts_def Let_def
      split: prod.splits option.splits sum.splits)

lemma lookup_throw_is_failure:
  assumes "parseInt env s = None" and "fst (lookupUserByUsername env s (world st)) = Inl msg"
  shows "author_fails env (Username s) st"
  using assms by (auto simp: author_fails_def Let_def split: prod.splits)

lemma fetch_throw_is_failure:
  assumes "fetch_method_of env = Some m" and "fst (m n 25 (world st)) = Inl msg"
  shows "author_fails env (Fid n) st"
  using assms by (simp add: author_fails_def fetch_fails_def)

text \<open>
  C7. Let one of the first four authors of a channel's roster fail at the provider: its
  name does not resolve, or the fetch for it throws. That author then adds no cast, and
  the aggregation goes on with the authors after it and returns normally: its result is
  the ranking of the casts of the authors before and after the failing one (\<open>others\<close>,
  which are objects), so their casts appear in the channel's ranked result as the window
  and the limit of five allow.
\<close>

theorem author_failure_is_isolated:
  assumes "map_of cu ch = Some users" and "take 4 users = us1 @ u # us2"
    and "process_users env us1 st = (a, st1)"
    and "author_fails env u st1"
    and "process_users env us2 (snd (process_user env u st1)) = (b, st2)"
    and "those (a @ b) = Some others"
  shows "fst (process_user env u st1) = []
         \<and> fetchChannelCasts env cu ch st =
             (Inr (rank_casts (Date_parse env)
                     (time_clip (Date_now env (world st) - 48 * 60 * 60 * 1000)) others), st2)"
proof -
  have e: "fst (process_user env u st1) = []"
    using assms(4) by (rule failed_author_adds_nothing)
  obtain c st' where p: "process_user env u st1 = (c, st')" by (cases "process_user env u st1")
  with e have c: "c = []" by simp
  have "process_users env (us1 @ u # us2) st = (a @ b, st2)"
    using assms(3,5) p c by (simp add: process_users_append)
  moreover have "users \<noteq> []" using assms(2) by auto
  ultimately show ?thesis using e assms(1,2,6)
    by (simp add: fetchChannelCasts_def recentCasts_def)
qed

text \<open>The second of the three authors of /farcaster fails; the first and the third
  have one recent cast each.\<close>

theorem author_failure_is_isolated_witness:
  "map_of CHANNEL_USERS ''/farcaster'' = Some [Fid 1325, Fid 15983, Fid 99]
   \<and> take 4 [Fid 1325, Fid 15983, Fid 99] = [Fid 1325] @ Fid 15983 # [Fid 99]
   \<and> process_users (clock_env (failing_for 15983 [Some recent_cast])) [Fid 1325]
        (start 1700000000000)
      = ([Some recent_cast],
         \<lparr>world = 1700000002000, trace = [FetchCall 1325 25, Delay 2000],
          cache_data = None, cache_timestamp = None\<rparr>)
   \<and> author_fails (clock_env (failing_for 15983 [Some recent_cast])) (Fid 15983)
        \<lparr>world = 1700000002000, trace = [FetchCall 1325 25, Delay 2000],
         cache_data = None, cache_timestamp = None\<rparr>
   \<and> those ([Some recent_cast] @ [Some recent_cast]) = Some [recent_cast, recent_cast]
   \<and> fetchChannelCasts (clock_env (failing_for 15983 [Some recent_cast])) CHANNEL_USERS
        ''/farcaster'' (start 1700000000000)
      = (Inr [digest_cast_of recent_cast, digest_cast_of recent_cast],
         \<lparr>world = 1700000004000,
          trace = [FetchCall 1325 25, Delay 2000, FetchCall 15983 25, FetchCall 99 25, Delay 2000],
          cache_data = None, cache_timestamp = None\<rparr>)"
proof -
  let ?env = "clock_env (failing_for 15983 [Some recent_cast])"
  let ?st1 = "\<lparr>world = 1700000002000, trace = [FetchCall 1325 25, Delay 2000],
          cache_data = None, cache_timestamp = None\<rparr> :: int state"
  let ?st2 = "\<lparr>world = 1700000004000,
          trace = [FetchCall 1325 25, Delay 2000, FetchCall 15983 25, FetchCall 99 25, Delay 2000],
          cache_data = None, cache_timestamp = None\<rparr> :: int state"
  have h1: "map_of CHANNEL_USERS ''/farcaster'' = Some [Fid 1325, Fid 15983, Fid 99]"
    by (simp add: CHANNEL_USERS_def)
  have h2: "take 4 [Fid 1325, Fid 15983, Fid 99] = [Fid 1325] @ Fid 15983 # [Fid 99]"
    by simp
  have h3: "process_users ?env [Fid 1325] (start 1700000000000) = ([Some recent_cast], ?st1)"
    by (simp add: clock_env_def failing_for_def reply_with_def start_def process_user_def
        fetch_casts_def fetch_method_of_def response_casts_of_def sleep_def)
  have h4: "author_fails ?env (Fid 15983) ?st1"
    by (simp add: author_fails_def fetch_fails_def fetch_method_of_def clock_env_def
        failing_for_def)
  have h5: "process_users ?env [Fid 99] (snd (process_user ?env (Fid 15983) ?st1))
      = ([Some recent_cast], ?st2)"
    by (simp add: clock_env_def failing_for_def reply_with_def process_user_def
        fetch_casts_def fetch_method_of_def response_casts_of_def sleep_def)
  have h6: "those ([Some recent_cast] @ [Some recent_cast]) = Some [recent_cast, recent_cast]"
    by simp
  have r: "rank_casts (Date_parse ?env)
             (time_clip (Date_now ?env (world (start 1700000000000)) - 48 * 60 * 60 * 1000))
             [recent_cast, recent_cast]
           = [digest_cast_of recent_cast, digest_cast_of recent_cast]"
    by (simp add: rank_casts_def in_window_def date_ge_def time_clip_def clock_env_def start_def
        recent_cast_def cast_at_def no_counts_def js_sort_def)
  from author_failure_is_isolated [OF h1 h2 h3 h4 h5 h6] h1 h2 h3 h4 h6 r
  show ?thesis by simp
qed

subsection \<open>Errors of a channel\<close>

lemma fetch_channels_no_error:
  "list_all (\<lambda>e. error e = None) (fst (fetch_channels env cu chs st))"
proof -
  have "list_all (\<lambda>e. True \<and> error e = None) (fst (fetch_channels env cu chs st))"
    by (rule fetch_channels_entries) simp
  then show ?thesis by simp
qed

text \<open>
  C6, as the code has it. An error raised while a channel is aggregated is caught inside
  \<^verbatim>\<open>fetchChannelCasts\<close>, which then returns an empty array: the channel's entry has an
  empty cast list and no error description (\<^verbatim>\<open>error: null\<close>), and the pass goes on
  with the remaining channels from the state the failed channel left. Every pass gives
  one entry for each channel, in order, and no entry ever has an error description.
\<close>

theorem channel_error_gives_empty_entry:
  "map channel (fst (fetch_channels env cu chs st)) = chs
   \<and> list_all (\<lambda>e. error e = None) (fst (fetch_channels env cu chs st))
   \<and> (map_of cu ch = Some users \<and> users \<noteq> []
        \<and> recentCasts (Date_parse env) (time_clip (Date_now env (world st) - 48 * 60 * 60 * 1000))
             (fst (process_users env (take 4 users) st)) = Inl msg
      \<longrightarrow> fetch_channels env cu (ch # chs) st
            = (\<lparr>channel = ch, casts = [], error = None\<rparr>
                 # fst (fetch_channels env cu chs (snd (process_users env (take 4 users) st))),
               snd (fetch_channels env cu chs (snd (process_users env (take 4 users) st)))))"
proof -
  have "fetch_channels env cu (ch # chs) st
            = (\<lparr>channel = ch, casts = [], error = None\<rparr>
                 # fst (fetch_channels env cu chs (snd (process_users env (take 4 users) st))),
               snd (fetch_channels env cu chs (snd (process_users env (take 4 users) st))))"
    if h: "map_of cu ch = Some users" "users \<noteq> []"
      "recentCasts (Date_parse env) (time_clip (Date_now env (world st) - 48 * 60 * 60 * 1000))
             (fst (process_users env (take 4 users) st)) = Inl msg"
  proof -
    obtain allCasts st1 where p: "process_users env (take 4 users) st = (allCasts, st1)"
      by (cases "process_users env (take 4 users) st")
    have "fetchChannelCasts env cu ch st = (Inr [], st1)"
      using h p by (simp add: fetchChannelCasts_def)
    then show ?thesis using p by (simp split: prod.splits)
  qed
  then show ?thesis
    using fetch_channels_channel [of env cu chs st] fetch_channels_no_error [of env cu chs st]
    by blast
qed

text \<open>The author of /higher is answered with an array holding null, the author of /ai
  with one recent cast.\<close>

theorem channel_error_gives_empty_entry_witness:
  "map_of CHANNEL_USERS ''/higher'' = Some [Fid 3] \<and> [Fid 3] \<noteq> []
   \<and> recentCasts (Date_parse (clock_env (null_for 3 [Some recent_cast])))
        (time_clip (Date_now (clock_env (null_for 3 [Some recent_cast]))
           (world (start 1700000000000)) - 48 * 60 * 60 * 1000))
        (fst (process_users (clock_env (null_for 3 [Some recent_cast])) (take 4 [Fid 3])
           (start 1700000000000)))
      = Inl ''Cannot read properties of null (reading 'timestamp')''
   \<and> fetch_channels (clock_env (null_for 3 [Some recent_cast])) CHANNEL_USERS
        [''/higher'', ''/ai''] (start 1700000000000)
      = ([\<lparr>channel = ''/higher'', casts = [], error = None\<rparr>,
          \<lparr>channel = ''/ai'', casts = [digest_cast_of recent_cast], error = None\<rparr>],
         \<lparr>world = 1700000004000,
          trace = [FetchCall 3 25, Delay 2000, FetchCall 221255 25, Delay 2000],
          cache_data = None, cache_timestamp = None\<rparr>)"
proof -
  let ?env = "clock_env (null_for 3 [Some recent_cast])"
  let ?st1 = "\<lparr>world = 1700000002000, trace = [FetchCall 3 25, Delay 2000],
          cache_data = None, cache_timestamp = None\<rparr> :: int state"
  have h1: "map_of CHANNEL_USERS ''/higher'' = Some [Fid 3]" by (simp add: CHANNEL_USERS_def)
  have p: "process_users ?env (take 4 [Fid 3]) (start 1700000000000) = ([None], ?st1)"
    by (simp add: clock_env_def null_for_def reply_with_def start_def process_user_def
        fetch_casts_def fetch_method_of_def response_casts_of_def sleep_def)
  have h3: "recentCasts (Date_parse ?env)
        (time_clip (Date_now ?env (world (start 1700000000000)) - 48 * 60 * 60 * 1000))
        (fst (process_users ?env (take 4 [Fid 3]) (start 1700000000000)))
      = Inl ''Cannot read properties of null (reading 'timestamp')''"
    unfolding p by (simp add: recentCasts_def)
  have rest: "fetch_channels ?env CHANNEL_USERS [''/ai''] ?st1
      = ([\<lparr>channel = ''/ai'', casts = [digest_cast_of recent_cast], error = None\<rparr>],
         \<lparr>world = 1700000004000,
          trace = [FetchCall 3 25, Delay 2000, FetchCall 221255 25, Delay 2000],
          cache_data = None, cache_timestamp = None\<rparr>)"
    by (simp add: fetchChannelCasts_def CHANNEL_USERS_def clock_env_def null_for_def
        reply_with_def process_user_def fetch_casts_def fetch_method_of_def
        response_casts_of_def sleep_def recentCasts_def rank_casts_def in_window_def
        date_ge_def time_clip_def recent_cast_def cast_at_def no_counts_def js_sort_def)
  from channel_error_gives_empty_entry [of ?env CHANNEL_USERS "[''/ai'']" "start 1700000000000"
      "''/higher''" "[Fid 3]" "''Cannot read properties of null (reading 'timestamp')''"]
    h1 h3 p rest
  show ?thesis by simp
qed

text \<open>
  The claim C6 as worded fails: the array fetched for /higher holds null, the filter
  throws on it, and the channel's entry has an empty cast list but no error description.
\<close>

theorem caught_error_leaves_no_description:
  "recentCasts (Date_parse (clock_env (reply_with [None])))
        (time_clip (Date_now (clock_env (reply_with [None])) (world (start 1700000000000))
           - 48 * 60 * 60 * 1000))
        (fst (process_users (clock_env (reply_with [None])) [Fid 3] (start 1700000000000)))
      = Inl ''Cannot read properties of null (reading 'timestamp')''
   \<and> fst (fetch_channels (clock_env (reply_with [None])) CHANNEL_USERS [''/higher'']
           (start 1700000000000))
      = [\<lparr>channel = ''/higher'', casts = [], error = None\<rparr>]"
  by (simp add: fetchChannelCasts_def CHANNEL_USERS_def clock_env_def reply_with_def start_def
      process_user_def fetch_casts_def fetch_method_of_def response_casts_of_def sleep_def
      recentCasts_def)

subsection \<open>Delays\<close>

lemma fetch_casts_trace_success:
  assumes "fetch_method_of env = Some m" and "fst (m fid 25 (world st)) = Inr (Some response)"
  shows "trace (snd (fetch_casts env fid st)) = trace st @ [FetchCall fid 25, Delay 2000]"
  using assms by (auto simp: fetch_casts_def sleep_def Let_def split: prod.splits)

lemma fetch_casts_trace_failure:
  assumes "fetch_fails env fid (world st)"
  shows "trace (snd (fetch_casts env fid st)) = trace st @ [FetchCall fid 25]"
  using assms
  by (auto simp: fetch_fails_def fetch_casts_def Let_def split: prod.splits option.splits sum.splits)

text \<open>
  C8 fails on the code. The provider throws on the fetch for the first author of
  /fc-devs (3621): the fetch for the second author (8152) is issued with no delay
  between the two calls, and the clock has advanced by the one delay after the second
  call only.
\<close>

theorem no_delay_after_failed_fetch:
  "snd (fetchChannelCasts (clock_env (failing_for 3621 [])) CHANNEL_USERS ''/fc-devs''
          (start 1700000000000))
     = \<lparr>world = 1700000002000,
        trace = [FetchCall 3621 25, FetchCall 8152 25, Delay 2000],
        cache_data = None, cache_timestamp = None\<rparr>"
  by (simp add: fetchChannelCasts_def CHANNEL_USERS_def clock_env_def failing_for_def
      reply_with_def start_def process_user_def fetch_casts_def fetch_method_of_def
      response_casts_of_def sleep_def recentCasts_def rank_casts_def js_sort_def)

subsection \<open>The score and the stored counts\<close>

lemma score_of_stored_counts:
  assumes "cast_likes cast = None" and "cast_recasts cast = None"
    and "Option.bind (cast_replies cast) replies_length = None"
  shows "score (digest_cast_of cast)
           = likes (digest_cast_of cast) + 2 * replies (digest_cast_of cast)
             + 3 * recasts (digest_cast_of cast)"
  using assms
  by (simp add: digest_cast_of_def calculateScore_def num_or_def num_or_0_def length_of_def
      split: option.splits)

text \<open>
  C9 fails on the code. A recent cast in the older response shape, with three likes in
  \<^verbatim>\<open>cast.likes\<close> and no \<^verbatim>\<open>cast.reactions\<close>, is stored with likes = 3, replies = 0
  and recasts = 0, and with the score 0 instead of 3.
\<close>

theorem score_ignores_fallback_counts:
  "fst (fetchChannelCasts (clock_env (reply_with [Some legacy_cast])) CHANNEL_USERS ''/higher''
          (start 1700000000000))
     = Inr [digest_cast_of legacy_cast]
   \<and> likes (digest_cast_of legacy_cast) = 3
   \<and> replies (digest_cast_of legacy_cast) = 0
   \<and> recasts (digest_cast_of legacy_cast) = 0
   \<and> score (digest_cast_of legacy_cast) = 0"
  by (simp add: fetchChannelCasts_def CHANNEL_USERS_def clock_env_def reply_with_def start_def
      process_user_def fetch_casts_def fetch_method_of_def response_casts_of_def sleep_def
      recentCasts_def rank_casts_def in_window_def date_ge_def time_clip_def js_sort_def
      legacy_cast_def recent_cast_def cast_at_def no_counts_def digest_cast_of_def
      calculateScore_def num_or_def num_or_0_def length_of_def)

end
